theory Spec2Isabelle
  imports Main
begin

section \<open>Values of the plugin\<close>

text \<open>
  The plugin \<^verbatim>\<open>cljpprint.py\<close> pipes the text of a buffer region through a chain of
  external commands and maps the diagnostics of a failing command back to buffer
  coordinates. Python's \<^verbatim>\<open>str\<close> is modelled as \<open>string\<close>: the texts of the model
  are the texts whose code points lie below 256, and on those the character classes
  below are exactly the ones of Python's \<^verbatim>\<open>re\<close> and \<^verbatim>\<open>str\<close>. Python's \<^verbatim>\<open>bytes\<close>
  is a list of 8-bit values. Python's integers are unbounded: \<open>int\<close>.
\<close>

type_synonym bytes = "char list"

text \<open>A variable that holds a \<^verbatim>\<open>str\<close> at one time and \<^verbatim>\<open>bytes\<close> at another
  (\<^verbatim>\<open>stdin\<close>, \<^verbatim>\<open>code\<close>, \<^verbatim>\<open>stderr\<close>: the source asks \<^verbatim>\<open>isinstance(x, str)\<close>).\<close>

datatype pyval = Str string | Bytes bytes

text \<open>\<^verbatim>\<open>sublime.Region(a, b)\<close>: \<^verbatim>\<open>begin()\<close> is the smaller end, \<^verbatim>\<open>end()\<close> the larger.\<close>

datatype region = Region int int

fun region_begin :: "region \<Rightarrow> int" where
  "region_begin (Region a b) = min a b"

fun region_end :: "region \<Rightarrow> int" where
  "region_end (Region a b) = max a b"

text \<open>Class \<^verbatim>\<open>Error\<close> (the field \<^verbatim>\<open>text\<close> is named \<open>etext\<close> here).\<close>

record error =
  etext :: string
  region :: region
  row :: int
  col :: int
  filename :: string

text \<open>The exceptions of the interpreter and its library that the plugin can meet, and
  the plugin's own \<^verbatim>\<open>FormatterError(errors)\<close>.\<close>

datatype builtin_exc =
  TypeError | AttributeError | IndexError | LookupError | UnicodeDecodeError | OSError

datatype exc = FormatterError "error list" | Builtin builtin_exc

text \<open>The argument of \<^verbatim>\<open>subprocess.Popen\<close>: an argument vector, or a single string (the
  default of the setting \<^verbatim>\<open>cmds\<close> is a flat list of strings, so each of them is a
  command on its own).\<close>

datatype cmd = CmdList "string list" | CmdStr string

section \<open>The host: settings, processes, codecs, the editor\<close>

text \<open>
  What the plugin calls and the repository does not contain is a parameter of the model:
  the loaded settings, the external processes (what a command writes and how it ends,
  as a function of the bytes it reads), the codecs of the interpreter,
  \<^verbatim>\<open>os.path.basename\<close> (it differs between platforms), and the geometry of the editor's
  buffer (\<^verbatim>\<open>view.rowcol\<close>, \<^verbatim>\<open>view.text_point\<close>, \<^verbatim>\<open>view.line\<close>, as functions of the
  buffer's text). A setting is \<open>None\<close> when its key is absent. \<open>basename_none\<close> is the
  exception that \<^verbatim>\<open>os.path.basename(None)\<close> raises: the class depends on the version
  of the library (\<^verbatim>\<open>TypeError\<close> where \<^verbatim>\<open>os.fspath\<close> checks the argument, since Python
  3.6, and in \<^verbatim>\<open>ntpath\<close>; \<^verbatim>\<open>AttributeError\<close> in the \<^verbatim>\<open>posixpath\<close> of Python 3.3).
\<close>

record env =
  cmds_setting :: "cmd list option"
  format_selected_setting :: "bool option"
  format_on_save_setting :: "bool option"
  popen :: "cmd \<Rightarrow> bytes \<Rightarrow> builtin_exc + (bytes \<times> bytes \<times> int)"
  encode :: "string \<Rightarrow> bytes"
  decode :: "string \<Rightarrow> bytes \<Rightarrow> builtin_exc + string"
  basename :: "string \<Rightarrow> string"
  basename_none :: builtin_exc
  rowcol :: "string \<Rightarrow> int \<Rightarrow> int \<times> int"
  text_point :: "string \<Rightarrow> int \<Rightarrow> int \<Rightarrow> int"
  line :: "string \<Rightarrow> int \<Rightarrow> region"

text \<open>\<^verbatim>\<open>settings.get(key, default)\<close>.\<close>

definition settings_get :: "'a option \<Rightarrow> 'a \<Rightarrow> 'a" where
  "settings_get v d = (case v of None \<Rightarrow> d | Some x \<Rightarrow> x)"

text \<open>What a command reads of its view: \<^verbatim>\<open>id()\<close>, \<^verbatim>\<open>file_name()\<close> (\<open>None\<close> for a
  buffer that was never saved), \<^verbatim>\<open>encoding()\<close>, \<^verbatim>\<open>sel()\<close> and
  \<^verbatim>\<open>score_selector(point, scope)\<close>.\<close>

record view =
  view_id :: nat
  file_name :: "string option"
  encoding :: string
  sel :: "region list"
  score_selector :: "int \<Rightarrow> string \<Rightarrow> int"

section \<open>Functions of Python's library\<close>

text \<open>\<^verbatim>\<open>\d\<close> of a \<^verbatim>\<open>str\<close> pattern, on code points below 256: the ASCII digits.\<close>

definition is_digit :: "char \<Rightarrow> bool" where
  "is_digit c = (48 \<le> (of_char c :: nat) \<and> (of_char c :: nat) \<le> 57)"

text \<open>\<^verbatim>\<open>\s\<close> of a \<^verbatim>\<open>str\<close> pattern, on code points below 256: TAB, LF, VT, FF, CR,
  FS, GS, RS, US, space, NEL and the no-break space.\<close>

definition is_space :: "char \<Rightarrow> bool" where
  "is_space c = ((of_char c :: nat) \<in> {9, 10, 11, 12, 13, 28, 29, 30, 31, 32, 133, 160})"

text \<open>\<^verbatim>\<open>int(s)\<close> on a non-empty run of ASCII digits.\<close>

definition digit_value :: "char \<Rightarrow> int" where
  "digit_value c = int (of_char c) - 48"

definition int_of_digits :: "string \<Rightarrow> int" where
  "int_of_digits s = foldl (\<lambda>n c. 10 * n + digit_value c) 0 s"

text \<open>\<^verbatim>\<open>s.startswith(p)\<close>.\<close>

definition startswith :: "string \<Rightarrow> string \<Rightarrow> bool" where
  "startswith s p = (take (length p) s = p)"

text \<open>\<^verbatim>\<open>s.replace(old, new)\<close>: every occurrence of \<open>old\<close>, from the left, without
  overlaps; an empty \<open>old\<close> matches before every character and at the end.\<close>

function replace :: "string \<Rightarrow> string \<Rightarrow> string \<Rightarrow> string" where
  "replace [] old new = (if old = [] then new else [])"
| "replace (c # cs) old new =
     (if old = [] then new @ c # replace cs old new
      else if startswith (c # cs) old then new @ replace (drop (length old) (c # cs)) old new
      else c # replace cs old new)"
  by pat_completeness auto
termination
  by (relation "measure (\<lambda>(s, old, new). length s)") auto

text \<open>\<^verbatim>\<open>s.splitlines()\<close>, on code points below 256: a line ends at LF, VT, FF, CR, FS, GS,
  RS or NEL; CR LF is one line end; there is no empty last line. \<open>cur\<close> is the line
  read so far, \<open>after_cr\<close> says that the character before was a CR.\<close>

definition is_linebreak :: "char \<Rightarrow> bool" where
  "is_linebreak c = ((of_char c :: nat) \<in> {10, 11, 12, 13, 28, 29, 30, 133})"

fun splitlines_from :: "bool \<Rightarrow> string \<Rightarrow> string \<Rightarrow> string list" where
  "splitlines_from after_cr cur [] = (if cur = [] then [] else [cur])"
| "splitlines_from after_cr cur (c # cs) =
     (if after_cr \<and> c = CHR 0x0A then splitlines_from False cur cs
      else if is_linebreak c then cur # splitlines_from (c = CHR 0x0D) [] cs
      else splitlines_from False (cur @ [c]) cs)"

definition splitlines :: "string \<Rightarrow> string list" where
  "splitlines s = splitlines_from False [] s"

text \<open>\<^verbatim>\<open>sep.join(xs)\<close>.\<close>

fun join :: "string \<Rightarrow> string list \<Rightarrow> string" where
  "join sep [] = []"
| "join sep [x] = x"
| "join sep (x # y # ys) = x @ sep @ join sep (y # ys)"

section \<open>Class Error\<close>

text \<open>
  \<^verbatim>\<open>line_re = re.compile(r'<stdin>:(\d+):(\d+):\s+(.*)\Z')\<close> and \<^verbatim>\<open>line_re.match(s)\<close>,
  which matches at the start of \<open>s\<close>; the result holds the three groups. Every
  quantifier is greedy, and none of them has a choice: a run of digits is followed by a
  colon, which is no digit, so \<^verbatim>\<open>\d+\<close> takes the whole run; \<^verbatim>\<open>\s+\<close> takes the whole run
  of white space, and \<^verbatim>\<open>(.*)\Z\<close> then matches the rest when it holds no LF (the dot
  matches everything else); where the rest holds an LF, a shorter run of white space
  leaves that LF in the rest, so there is no match.
\<close>

definition line_re_match :: "string \<Rightarrow> (string \<times> string \<times> string) option" where
  "line_re_match s =
     (if \<not> startswith s ''<stdin>:'' then None
      else let s1 = drop 8 s; g1 = takeWhile is_digit s1; s2 = dropWhile is_digit s1 in
        if g1 = [] \<or> \<not> startswith s2 '':'' then None
        else let s3 = drop 1 s2; g2 = takeWhile is_digit s3; s4 = dropWhile is_digit s3 in
          if g2 = [] \<or> \<not> startswith s4 '':'' then None
          else let s5 = drop 1 s4; ws = takeWhile is_space s5; g3 = dropWhile is_space s5 in
            if ws = [] \<or> CHR 0x0A \<in> set g3 then None
            else Some (g1, g2, g3))"

text \<open>
  The body of the loop of \<^verbatim>\<open>Error.parse_stderr\<close> for one line that matched with the
  groups \<open>g1\<close>, \<open>g2\<close>, \<open>g3\<close>: the row and the column become 0-based, a column of the
  first line moves by the column where the region starts, every row moves by the row
  where the region starts, and the marked span runs to the end of the line.
\<close>

definition make_error ::
  "env \<Rightarrow> string \<Rightarrow> int \<times> int \<Rightarrow> string \<Rightarrow> string \<times> string \<times> string \<Rightarrow> error" where
  "make_error E buf rc fn m =
     (case (rc, m) of ((region_row, region_col), (g1, g2, g3)) \<Rightarrow>
        let r0 = int_of_digits g1 - 1;
            c0 = int_of_digits g2 - 1;
            c1 = (if r0 = 0 then c0 + region_col else c0);
            r1 = r0 + region_row;
            a = text_point E buf r1 c1;
            b = region_end (line E buf a)
        in \<lparr>etext = g3, region = Region a b, row = r1, col = c1, filename = fn\<rparr>)"

text \<open>The loop over the lines; \<open>errors\<close> is the list built so far. A line that does not
  match is passed over.\<close>

fun parse_lines ::
  "env \<Rightarrow> string \<Rightarrow> int \<times> int \<Rightarrow> string \<Rightarrow> string list \<Rightarrow> error list \<Rightarrow> error list" where
  "parse_lines E buf rc fn [] errors = errors"
| "parse_lines E buf rc fn (raw_text # rest) errors =
     (case line_re_match raw_text of
        None \<Rightarrow> parse_lines E buf rc fn rest errors
      | Some m \<Rightarrow> parse_lines E buf rc fn rest (errors @ [make_error E buf rc fn m]))"

text \<open>
  \<^verbatim>\<open>Error.parse_stderr(stderr, region, view)\<close>; \<open>buf\<close> is the text of the view's buffer.
  \<^verbatim>\<open>bytes\<close> are decoded as UTF-8, which can raise; \<^verbatim>\<open>os.path.basename\<close> raises on
  the \<^verbatim>\<open>None\<close> that \<^verbatim>\<open>view.file_name()\<close> gives for a buffer without a file. The echo
  of each line on the console is left out.
  \<open>stderr_text\<close> is the test \<^verbatim>\<open>isinstance(stderr, str)\<close> with its decoding.
\<close>

definition stderr_text :: "env \<Rightarrow> pyval \<Rightarrow> builtin_exc + string" where
  "stderr_text E stderr = (case stderr of Str s \<Rightarrow> Inr s | Bytes b \<Rightarrow> decode E ''utf-8'' b)"

definition parse_stderr ::
  "env \<Rightarrow> string \<Rightarrow> pyval \<Rightarrow> region \<Rightarrow> view \<Rightarrow> builtin_exc + error list" where
  "parse_stderr E buf stderr reg v =
     (let rc = rowcol E buf (region_begin reg) in
      case stderr_text E stderr of
        Inl e \<Rightarrow> Inl e
      | Inr s \<Rightarrow>
          (case file_name v of
             None \<Rightarrow> Inl (basename_none E)
           | Some p \<Rightarrow>
               let fn = basename E p;
                   s' = replace s ''<standard input>'' fn
               in Inr (parse_lines E buf rc fn (splitlines s') [])))"

section \<open>The editor's state\<close>

text \<open>\<^verbatim>\<open>str(n)\<close> for an integer, as \<^verbatim>\<open>str.format\<close> prints it.\<close>

function str_of_nat :: "nat \<Rightarrow> string" where
  "str_of_nat n =
     (if n < 10 then [char_of (48 + n)] else str_of_nat (n div 10) @ [char_of (48 + n mod 10)])"
  by pat_completeness auto
termination
  by (relation "measure (\<lambda>n. n)") auto

definition str_of_int :: "int \<Rightarrow> string" where
  "str_of_int i = (if i < 0 then CHR ''-'' # str_of_nat (nat (- i)) else str_of_nat (nat i))"

text \<open>
  The calls that change what the user sees or start a process, in the order they are
  made: \<^verbatim>\<open>view.set_status('cljpprint', text)\<close>, \<^verbatim>\<open>view.erase_regions('cljpprint')\<close>,
  \<^verbatim>\<open>view.add_regions('cljpprint', regions, ...)\<close>, the window command \<^verbatim>\<open>hide_panel\<close>,
  the output panel \<^verbatim>\<open>cljpprint\<close> created and filled with its characters, a process
  started on its input, \<^verbatim>\<open>sublime.error_message\<close> with the traceback of an exception,
  and \<^verbatim>\<open>view.show_popup(html, location=point)\<close>.
\<close>

datatype call =
    SetStatus string
  | EraseRegions
  | AddRegions "region list"
  | HidePanel
  | OutputPanel string
  | Popen cmd bytes
  | ErrorMessage builtin_exc
  | ShowPopup string int

text \<open>The state a command works on: the text of the view's buffer, the calls made so
  far, and the global dictionary \<^verbatim>\<open>view_errors\<close> (from view ids to lists of errors).\<close>

record world =
  buffer :: string
  calls :: "call list"
  view_errors :: "nat \<Rightarrow> error list option"

definition do_call :: "call \<Rightarrow> world \<Rightarrow> world" where
  "do_call c s = s\<lparr>calls := calls s @ [c]\<rparr>"

text \<open>\<^verbatim>\<open>view.substr(region)\<close>, \<^verbatim>\<open>view.replace(edit, region, text)\<close> and \<^verbatim>\<open>view.size()\<close>.\<close>

definition substr :: "string \<Rightarrow> region \<Rightarrow> string" where
  "substr buf r = take (nat (region_end r) - nat (region_begin r)) (drop (nat (region_begin r)) buf)"

definition view_replace :: "region \<Rightarrow> string \<Rightarrow> world \<Rightarrow> world" where
  "view_replace r t s =
     s\<lparr>buffer := take (nat (region_begin r)) (buffer s) @ t @ drop (nat (region_end r)) (buffer s)\<rparr>"

definition view_size :: "world \<Rightarrow> int" where
  "view_size s = int (length (buffer s))"

section \<open>Class Command\<close>

text \<open>\<^verbatim>\<open>Command.run(stdin)\<close>: a \<^verbatim>\<open>str\<close> is encoded with the default codec, the process
  runs on the bytes and gives its output, its error output and its exit code.\<close>

definition stdin_bytes :: "env \<Rightarrow> pyval \<Rightarrow> bytes" where
  "stdin_bytes E stdin = (case stdin of Str t \<Rightarrow> encode E t | Bytes b \<Rightarrow> b)"

definition run :: "env \<Rightarrow> cmd \<Rightarrow> pyval \<Rightarrow> world \<Rightarrow> (builtin_exc + (bytes \<times> bytes \<times> int)) \<times> world" where
  "run E c stdin s = (popen E c (stdin_bytes E stdin), do_call (Popen c (stdin_bytes E stdin)) s)"

text \<open>\<^verbatim>\<open>cmd.cmd[0]\<close>: the first argument, or the first character of a string.\<close>

fun cmd_head :: "cmd \<Rightarrow> builtin_exc + string" where
  "cmd_head (CmdList []) = Inl IndexError"
| "cmd_head (CmdList (a # as)) = Inr a"
| "cmd_head (CmdStr []) = Inl IndexError"
| "cmd_head (CmdStr (c # cs)) = Inr [c]"

section \<open>Class Formatter\<close>

record formatter =
  f_view :: view
  f_encoding :: string
  f_cmds :: "cmd list"

text \<open>\<^verbatim>\<open>Formatter.__init__(view)\<close>.\<close>

definition Formatter :: "env \<Rightarrow> view \<Rightarrow> formatter" where
  "Formatter E v =
     \<lparr>f_view = v,
      f_encoding = (if encoding v = ''Undefined'' then ''utf-8'' else encoding v),
      f_cmds = (let cmds = settings_get (cmds_setting E) [CmdStr ''joker'', CmdStr ''--format'', CmdStr ''-'']
                in if cmds = [] then [] else cmds)\<rparr>"

definition clear_errors :: "world \<Rightarrow> world" where
  "clear_errors s = do_call EraseRegions (do_call (SetStatus []) s)"

definition hide_error_panel :: "world \<Rightarrow> world" where
  "hide_error_panel s = do_call HidePanel s"

definition show_error_panel :: "error list \<Rightarrow> world \<Rightarrow> world" where
  "show_error_panel errors s = do_call (OutputPanel (join [CHR 0x0A] (map etext errors))) s"

definition show_error_regions :: "error list \<Rightarrow> world \<Rightarrow> world" where
  "show_error_regions errors s = do_call (AddRegions (map region errors)) s"

definition show_errors :: "error list \<Rightarrow> int \<Rightarrow> cmd \<Rightarrow> world \<Rightarrow> (builtin_exc + unit) \<times> world" where
  "show_errors errors return_code c s =
     (case cmd_head c of
        Inl e \<Rightarrow> (Inl e, s)
      | Inr name \<Rightarrow>
          (Inr (),
           show_error_regions errors
             (show_error_panel errors
               (do_call (SetStatus (name @ '' failed with return code '' @ str_of_int return_code)) s))))"

text \<open>
  The loop of \<^verbatim>\<open>Formatter.format\<close> over the commands that are left; \<open>code\<close> is the
  variable of that name. A command that wrote to its error output or ended with another
  exit code than 0 ends the loop with an exception: \<^verbatim>\<open>FormatterError\<close> after the errors
  are parsed and shown, or the exception that the parsing or the showing raised.
\<close>

fun format_cmds ::
  "env \<Rightarrow> formatter \<Rightarrow> region \<Rightarrow> cmd list \<Rightarrow> pyval \<Rightarrow> world \<Rightarrow> (exc + pyval) \<times> world" where
  "format_cmds E fm reg [] code s = (Inr code, s)"
| "format_cmds E fm reg (c # cs) code s =
     (case run E c code s of
        (Inl e, s1) \<Rightarrow> (Inl (Builtin e), s1)
      | (Inr (out, stderr, return_code), s1) \<Rightarrow>
          if stderr \<noteq> [] \<or> return_code \<noteq> 0 then
            (case parse_stderr E (buffer s1) (Bytes stderr) reg (f_view fm) of
               Inl e \<Rightarrow> (Inl (Builtin e), s1)
             | Inr errors \<Rightarrow>
                 (case show_errors errors return_code c s1 of
                    (Inl e, s2) \<Rightarrow> (Inl (Builtin e), s2)
                  | (Inr u, s2) \<Rightarrow> (Inl (FormatterError errors), s2)))
          else format_cmds E fm reg cs (Bytes out) s1)"

text \<open>\<^verbatim>\<open>Formatter.format(region)\<close>. With no command at all \<open>code\<close> is still a \<^verbatim>\<open>str\<close>,
  which has no method \<^verbatim>\<open>decode\<close>.\<close>

definition format :: "env \<Rightarrow> formatter \<Rightarrow> region \<Rightarrow> world \<Rightarrow> (exc + string) \<times> world" where
  "format E fm reg s =
     (let s0 = clear_errors s;
          code = Str (substr (buffer s0) reg)
      in case format_cmds E fm reg (f_cmds fm) code s0 of
           (Inl e, s1) \<Rightarrow> (Inl e, s1)
         | (Inr code', s1) \<Rightarrow>
             (let s2 = hide_error_panel s1
              in case code' of
                   Str t \<Rightarrow> (Inl (Builtin AttributeError), s2)
                 | Bytes b \<Rightarrow>
                     (case decode E (f_encoding fm) b of
                        Inl e \<Rightarrow> (Inl (Builtin e), s2)
                      | Inr t \<Rightarrow> (Inr t, s2))))"

section \<open>The command and the listener\<close>

definition is_clojure_source :: "view \<Rightarrow> bool" where
  "is_clojure_source v =
     (score_selector v 0 ''source.clojure'' \<noteq> 0 \<or> score_selector v 0 ''source.edn'' \<noteq> 0)"

text \<open>The loop of \<^verbatim>\<open>run_formatter\<close>: each region is formatted and then replaced, in
  turn; an exception ends the loop.\<close>

fun format_regions :: "env \<Rightarrow> formatter \<Rightarrow> region list \<Rightarrow> world \<Rightarrow> (exc + unit) \<times> world" where
  "format_regions E fm [] s = (Inr (), s)"
| "format_regions E fm (r # rs) s =
     (case format E fm r s of
        (Inl e, s1) \<Rightarrow> (Inl e, s1)
      | (Inr t, s1) \<Rightarrow> format_regions E fm rs (view_replace r t s1))"

text \<open>\<^verbatim>\<open>run_formatter(edit, view, regions)\<close>.\<close>

definition forget_errors :: "view \<Rightarrow> world \<Rightarrow> world" where
  "forget_errors v s =
     (if view_errors s (view_id v) \<noteq> None
      then s\<lparr>view_errors := (view_errors s)(view_id v := None)\<rparr> else s)"

definition run_formatter :: "env \<Rightarrow> view \<Rightarrow> region list \<Rightarrow> world \<Rightarrow> world" where
  "run_formatter E v regions s =
     (case format_regions E (Formatter E v) regions (forget_errors v s) of
        (Inl (FormatterError errors), s1) \<Rightarrow>
          s1\<lparr>view_errors := (view_errors s1)(view_id v \<mapsto> errors)\<rparr>
      | (Inl (Builtin e), s1) \<Rightarrow> do_call (ErrorMessage e) s1
      | (Inr u, s1) \<Rightarrow> s1)"

text \<open>\<^verbatim>\<open>CljpprintCommand.run(edit)\<close>; \<open>regions\<close> is \<^verbatim>\<open>None\<close> until the setting
  \<^verbatim>\<open>format_selected\<close> fills it, and \<^verbatim>\<open>None\<close> and the empty list both give way to the
  whole buffer.\<close>

definition CljpprintCommand_run :: "env \<Rightarrow> view \<Rightarrow> world \<Rightarrow> world" where
  "CljpprintCommand_run E v s =
     (if \<not> is_clojure_source v then s
      else let regions =
                 (if settings_get (format_selected_setting E) False
                  then Some (filter (\<lambda>r. region_begin r \<noteq> region_end r) (sel v)) else None);
               regions' =
                 (case regions of
                    None \<Rightarrow> [Region 0 (view_size s)]
                  | Some rs \<Rightarrow> if rs = [] then [Region 0 (view_size s)] else rs)
           in run_formatter E v regions' s)"

text \<open>Class \<^verbatim>\<open>CljPpprintListener\<close>. \<^verbatim>\<open>ERROR_TEMPLATE\<close> is a line break, the row in bold
  before the text, and a line break.\<close>

definition error_html :: "error \<Rightarrow> string" where
  "error_html e =
     [CHR 0x0A] @ ''<div><b>'' @ str_of_int (row e + 1) @ '':</b> '' @ etext e @ ''</div>'' @ [CHR 0x0A]"

definition show_errors_for_row :: "view \<Rightarrow> int \<Rightarrow> int \<Rightarrow> world \<Rightarrow> world" where
  "show_errors_for_row v r point s =
     (if \<not> is_clojure_source v then s
      else case view_errors s (view_id v) of
             None \<Rightarrow> s
           | Some errors \<Rightarrow>
               if errors = [] then s
               else let row_errors = filter (\<lambda>e. row e = r) errors
                    in if row_errors = [] then s
                       else do_call (ShowPopup (join [CHR 0x0A] (map error_html row_errors)) point) s)"

datatype hover_zone = HOVER_TEXT | HOVER_GUTTER | HOVER_MARGIN

definition on_hover :: "env \<Rightarrow> view \<Rightarrow> int \<Rightarrow> hover_zone \<Rightarrow> world \<Rightarrow> world" where
  "on_hover E v point zone s =
     (if zone \<noteq> HOVER_TEXT then s
      else show_errors_for_row v (fst (rowcol E (buffer s) point)) point s)"

definition on_pre_save :: "env \<Rightarrow> view \<Rightarrow> world \<Rightarrow> world" where
  "on_pre_save E v s =
     (if \<not> settings_get (format_on_save_setting E) True then s
      else CljpprintCommand_run E v s)"

text \<open>
  The events of a view that the editor sends to its listeners. The class has the two
  methods \<^verbatim>\<open>on_hover\<close> and \<^verbatim>\<open>on_pre_save\<close> and no other: an event without a method in
  the class, as the closing of the view, runs no code of the plugin.
\<close>

datatype event = OnHover int hover_zone | OnPreSave | OnClose

fun CljPpprintListener :: "env \<Rightarrow> view \<Rightarrow> event \<Rightarrow> world \<Rightarrow> world" where
  "CljPpprintListener E v (OnHover point zone) s = on_hover E v point zone s"
| "CljPpprintListener E v OnPreSave s = on_pre_save E v s"
| "CljPpprintListener E v OnClose s = s"

section \<open>The diagnostics of an error output\<close>

text \<open>The groups of the lines that match, in their order: \<open>s\<close> is the decoded error
  output, \<open>fn\<close> the name that takes the place of \<^verbatim>\<open><standard input>\<close>.\<close>

definition diagnostics :: "string \<Rightarrow> string \<Rightarrow> (string \<times> string \<times> string) list" where
  "diagnostics s fn = List.map_filter line_re_match (splitlines (replace s ''<standard input>'' fn))"

section \<open>A host for the examples\<close>

text \<open>
  The examples below run the model on a small host: a buffer whose lines end at LF,
  POSIX paths, texts and bytes below 128 (a byte is its character), and three
  programs. \<^verbatim>\<open>cat\<close> writes what it reads. \<^verbatim>\<open>lein\<close> writes a complaint that is no
  diagnostic and ends with exit code 1. \<^verbatim>\<open>joker --format -\<close> stands for the formatter:
  an input with as many opening as closing parentheses comes back with a space for
  every TAB, any other input gives one diagnostic and exit code 1.
\<close>

definition plain_rowcol :: "string \<Rightarrow> int \<Rightarrow> int \<times> int" where
  "plain_rowcol buf p =
     (let pre = take (nat p) buf
      in (int (length (filter (\<lambda>c. c = CHR 0x0A) pre)),
          int (length (takeWhile (\<lambda>c. c \<noteq> CHR 0x0A) (rev pre)))))"

fun skip_lines :: "nat \<Rightarrow> string \<Rightarrow> string" where
  "skip_lines 0 s = s"
| "skip_lines (Suc n) s = skip_lines n (drop 1 (dropWhile (\<lambda>c. c \<noteq> CHR 0x0A) s))"

definition plain_text_point :: "string \<Rightarrow> int \<Rightarrow> int \<Rightarrow> int" where
  "plain_text_point buf r c = int (length buf - length (skip_lines (nat r) buf)) + c"

definition plain_line :: "string \<Rightarrow> int \<Rightarrow> region" where
  "plain_line buf p =
     Region (p - snd (plain_rowcol buf p))
            (p + int (length (takeWhile (\<lambda>c. c \<noteq> CHR 0x0A) (drop (nat p) buf))))"

definition posix_basename :: "string \<Rightarrow> string" where
  "posix_basename p = rev (takeWhile (\<lambda>c. c \<noteq> CHR ''/'') (rev p))"

definition ascii_decode :: "string \<Rightarrow> bytes \<Rightarrow> builtin_exc + string" where
  "ascii_decode name b =
     (if name \<noteq> ''utf-8'' \<and> name \<noteq> ''UTF-8'' then Inl LookupError
      else if list_all (\<lambda>c. (of_char c :: nat) < 128) b then Inr b
      else Inl UnicodeDecodeError)"

definition demo_popen :: "cmd \<Rightarrow> bytes \<Rightarrow> builtin_exc + (bytes \<times> bytes \<times> int)" where
  "demo_popen c input =
     (if c = CmdList [''cat''] then Inr (input, [], 0)
      else if c = CmdList [''lein''] then Inr ([], ''Could not find project.clj'' @ [CHR 0x0A], 1)
      else if c = CmdList [''joker'', ''--format'', ''-''] then
        (if length (filter (\<lambda>x. x = CHR ''('') input) = length (filter (\<lambda>x. x = CHR '')'') input)
         then Inr (map (\<lambda>x. if x = CHR 0x09 then CHR '' '' else x) input, [], 0)
         else Inr ([], ''<stdin>:1:3: Read error: Unexpected EOF'' @ [CHR 0x0A], 1))
      else Inl OSError)"

definition demo_env :: env where
  "demo_env =
     \<lparr>cmds_setting = Some [CmdList [''joker'', ''--format'', ''-'']],
      format_selected_setting = Some True,
      format_on_save_setting = None,
      popen = demo_popen,
      encode = (\<lambda>t. t),
      decode = ascii_decode,
      basename = posix_basename,
      basename_none = TypeError,
      rowcol = plain_rowcol,
      text_point = plain_text_point,
      line = plain_line\<rparr>"

definition demo_view :: view where
  "demo_view =
     \<lparr>view_id = 7,
      file_name = Some ''/home/user/core.clj'',
      encoding = ''UTF-8'',
      sel = [Region 3 3, Region 37 16],
      score_selector = (\<lambda>p scope. if scope = ''source.clojure'' then 8 else 0)\<rparr>"

text \<open>Ten empty lines, then three lines of code with a parenthesis left open.\<close>

definition demo_buffer :: string where
  "demo_buffer =
     replicate 10 (CHR 0x0A) @ ''(defn f [x]'' @ [CHR 0x0A] @ ''  (+ x'' @ [CHR 0x0A] @ ''    1]) ''"

definition old_error :: error where
  "old_error = \<lparr>etext = ''EOF'', region = Region 0 0, row = 0, col = 0, filename = ''core.clj''\<rparr>"

definition demo_world :: world where
  "demo_world = \<lparr>buffer = demo_buffer, calls = [], view_errors = [7 \<mapsto> [old_error]]\<rparr>"

text \<open>A buffer of one line with two expressions: the first is well formed and holds a
  TAB, the second is left open.\<close>

definition two_forms :: world where
  "two_forms = \<lparr>buffer = ''(a'' @ [CHR 0x09] @ '') (b'', calls = [], view_errors = Map.empty\<rparr>"





section \<open>Parsing the error output\<close>

lemma parse_lines_acc:
  "parse_lines E buf rc fn ls acc =
     acc @ map (make_error E buf rc fn) (List.map_filter line_re_match ls)"
  by (induction ls arbitrary: acc) (simp_all add: List.map_filter_simps split: option.splits)

lemma parse_stderr_text:
  assumes "stderr_text E stderr = Inr s" and "file_name v = Some p"
  shows "parse_stderr E buf stderr reg v =
     Inr (map (make_error E buf (rowcol E buf (region_begin reg)) (basename E p))
            (diagnostics s (basename E p)))"
  using assms by (simp add: parse_stderr_def diagnostics_def parse_lines_acc Let_def)

lemma diagnostics_stdin_line:
  "diagnostics ''<stdin>:3:5: Unmatched delimiter'' fn = [(''3'', ''5'', ''Unmatched delimiter'')]"
  by (simp add: diagnostics_def startswith_def splitlines_def is_linebreak_def
      line_re_match_def is_digit_def is_space_def List.map_filter_simps)

lemma demo_geometry:
  "rowcol demo_env demo_buffer (region_begin (Region 10 37)) = (10, 0)"
  "rowcol demo_env demo_buffer (region_begin (Region 16 37)) = (10, 6)"
  "text_point demo_env demo_buffer 12 4 = 33"
  "region_end (line demo_env demo_buffer 33) = 37"
  by code_simp+

lemma demo_file: "file_name demo_view = Some ''/home/user/core.clj''"
  by (simp add: demo_view_def)

lemma demo_basename: "basename demo_env ''/home/user/core.clj'' = ''core.clj''"
  by code_simp

text \<open>
  C1, as the code has it. The pattern asks for the tag \<^verbatim>\<open><stdin>\<close>. For the line
  \<^verbatim>\<open><stdin>:3:5: Unmatched delimiter\<close>, a region that starts at row 10, column 0, and a
  view that has a file name, \<^verbatim>\<open>Error.parse_stderr\<close> gives exactly one error: its row is
  12, its column 4, its text the message, its file name the base name of the view's
  file, and its span runs from the point of row 12, column 4 to the end of that line.
  The error output may be the text itself or bytes that decode to it.
\<close>

theorem stdin_line_parsed:
  assumes "stderr_text E stderr = Inr ''<stdin>:3:5: Unmatched delimiter''"
    and "file_name v = Some p"
    and "rowcol E buf (region_begin reg) = (10, 0)"
  shows "parse_stderr E buf stderr reg v =
     Inr [\<lparr>etext = ''Unmatched delimiter'',
           region = Region (text_point E buf 12 4) (region_end (line E buf (text_point E buf 12 4))),
           row = 12, col = 4, filename = basename E p\<rparr>]"
  using assms
  by (simp add: parse_stderr_text diagnostics_stdin_line make_error_def Let_def
      int_of_digits_def digit_value_def)

text \<open>C1 on the example: the view of \<^verbatim>\<open>core.clj\<close>, the region of the three lines of code.\<close>

theorem stdin_line_parsed_witness:
  "parse_stderr demo_env demo_buffer (Str ''<stdin>:3:5: Unmatched delimiter'') (Region 10 37) demo_view =
     Inr [\<lparr>etext = ''Unmatched delimiter'', region = Region 33 37,
           row = 12, col = 4, filename = ''core.clj''\<rparr>]"
proof -
  have h: "stderr_text demo_env (Str ''<stdin>:3:5: Unmatched delimiter'') =
      Inr ''<stdin>:3:5: Unmatched delimiter''"
    by (simp add: stderr_text_def)
  show ?thesis
    using stdin_line_parsed [OF h demo_file demo_geometry(1)]
    by (simp add: demo_geometry demo_basename)
qed

text \<open>
  C1, as the claim has it, fails: the line \<^verbatim>\<open><standard input>:3:5: Unmatched delimiter\<close>
  gives no error at all. In the view of the file \<^verbatim>\<open>core.clj\<close>, with a region that
  starts at row 10, column 0, the line becomes \<^verbatim>\<open>core.clj:3:5: Unmatched delimiter\<close>
  before the pattern is tried, and the pattern asks for \<^verbatim>\<open><stdin>\<close> at its start.
\<close>

theorem standard_input_line_not_parsed:
  "rowcol demo_env demo_buffer (region_begin (Region 10 37)) = (10, 0) \<and>
   parse_stderr demo_env demo_buffer (Str ''<standard input>:3:5: Unmatched delimiter'')
     (Region 10 37) demo_view = Inr []"
  by code_simp

text \<open>
  C2. Let the error output be read (as text, or as bytes that decode) in a view that
  has a file name, and let the region start at row \<open>region_row\<close>, column \<open>c\<close>. Then
  \<^verbatim>\<open>Error.parse_stderr\<close> gives one error for each line that matches, in their order,
  and for each of them: the row of the error is the row of the diagnostic, 0-based (the
  number printed minus one), plus \<open>region_row\<close>; and when that 0-based row is 0, the
  first line of the piped text, the column of the error is the column of the
  diagnostic, 0-based, plus \<open>c\<close>.
\<close>

theorem first_line_column_offset:
  assumes "stderr_text E stderr = Inr s" and "file_name v = Some p"
    and "rowcol E buf (region_begin reg) = (region_row, c)"
  shows "\<exists>errs. parse_stderr E buf stderr reg v = Inr errs \<and>
     list_all2 (\<lambda>m e. case m of (g1, g2, g3) \<Rightarrow>
          row e = (int_of_digits g1 - 1) + region_row \<and>
          (int_of_digits g1 - 1 = 0 \<longrightarrow> col e = (int_of_digits g2 - 1) + c))
       (diagnostics s (basename E p)) errs"
proof -
  let ?ms = "diagnostics s (basename E p)"
  let ?mk = "make_error E buf (region_row, c) (basename E p)"
  have "parse_stderr E buf stderr reg v = Inr (map ?mk ?ms)"
    using assms by (simp add: parse_stderr_text)
  moreover have "list_all2 (\<lambda>m e. case m of (g1, g2, g3) \<Rightarrow>
          row e = (int_of_digits g1 - 1) + region_row \<and>
          (int_of_digits g1 - 1 = 0 \<longrightarrow> col e = (int_of_digits g2 - 1) + c)) ?ms (map ?mk ?ms)"
    by (simp add: list_all2_map2 list_all2_same make_error_def Let_def split: prod.splits)
  ultimately show ?thesis by blast
qed

lemma diagnostics_first_line:
  "diagnostics ''<stdin>:1:5: Unmatched delimiter'' fn = [(''1'', ''5'', ''Unmatched delimiter'')]"
  by (simp add: diagnostics_def startswith_def splitlines_def is_linebreak_def
      line_re_match_def is_digit_def is_space_def List.map_filter_simps)

text \<open>C2 on the example: a diagnostic at 1:5 for a region that starts at row 10, column 6.\<close>

theorem first_line_column_offset_witness:
  "\<exists>errs. parse_stderr demo_env demo_buffer (Str ''<stdin>:1:5: Unmatched delimiter'')
       (Region 16 37) demo_view = Inr errs \<and>
     map row errs = [0 + 10] \<and> map col errs = [4 + 6]"
proof -
  have h: "stderr_text demo_env (Str ''<stdin>:1:5: Unmatched delimiter'') =
      Inr ''<stdin>:1:5: Unmatched delimiter''"
    by (simp add: stderr_text_def)
  show ?thesis
    using first_line_column_offset [OF h demo_file demo_geometry(2)]
    by (auto simp add: diagnostics_first_line list_all2_Cons1 int_of_digits_def digit_value_def)
qed

text \<open>
  C3. In the same setting, for each line that matches and whose 0-based row is not 0 (a
  later line of the piped text): the row of the error is \<open>region_row\<close> plus the 0-based
  row of the diagnostic, and the column of the error is the 0-based column of the
  diagnostic, the number printed minus one, whatever the column where the region starts.
\<close>

theorem later_line_row_offset:
  assumes "stderr_text E stderr = Inr s" and "file_name v = Some p"
    and "rowcol E buf (region_begin reg) = (region_row, c)"
  shows "\<exists>errs. parse_stderr E buf stderr reg v = Inr errs \<and>
     list_all2 (\<lambda>m e. case m of (g1, g2, g3) \<Rightarrow>
          (int_of_digits g1 - 1 \<noteq> 0 \<longrightarrow>
             row e = region_row + (int_of_digits g1 - 1) \<and> col e = int_of_digits g2 - 1))
       (diagnostics s (basename E p)) errs"
proof -
  let ?ms = "diagnostics s (basename E p)"
  let ?mk = "make_error E buf (region_row, c) (basename E p)"
  have "parse_stderr E buf stderr reg v = Inr (map ?mk ?ms)"
    using assms by (simp add: parse_stderr_text)
  moreover have "list_all2 (\<lambda>m e. case m of (g1, g2, g3) \<Rightarrow>
          (int_of_digits g1 - 1 \<noteq> 0 \<longrightarrow>
             row e = region_row + (int_of_digits g1 - 1) \<and> col e = int_of_digits g2 - 1))
       ?ms (map ?mk ?ms)"
    by (simp add: list_all2_map2 list_all2_same make_error_def Let_def split: prod.splits)
  ultimately show ?thesis by blast
qed

text \<open>C3 on the example: a diagnostic at 3:5 for a region that starts at row 10, column 6.\<close>

theorem later_line_row_offset_witness:
  "\<exists>errs. parse_stderr demo_env demo_buffer (Str ''<stdin>:3:5: Unmatched delimiter'')
       (Region 16 37) demo_view = Inr errs \<and>
     map row errs = [10 + 2] \<and> map col errs = [4]"
proof -
  have h: "stderr_text demo_env (Str ''<stdin>:3:5: Unmatched delimiter'') =
      Inr ''<stdin>:3:5: Unmatched delimiter''"
    by (simp add: stderr_text_def)
  show ?thesis
    using later_line_row_offset [OF h demo_file demo_geometry(2)]
    by (auto simp add: diagnostics_stdin_line list_all2_Cons1 int_of_digits_def digit_value_def)
qed

section \<open>What a run leaves unchanged\<close>

lemma do_call_fields [simp]:
  "buffer (do_call c s) = buffer s"
  "view_errors (do_call c s) = view_errors s"
  "calls (do_call c s) = calls s @ [c]"
  by (simp_all add: do_call_def)

lemma clear_errors_fields [simp]:
  "buffer (clear_errors s) = buffer s"
  "view_errors (clear_errors s) = view_errors s"
  "calls (clear_errors s) = calls s @ [SetStatus [], EraseRegions]"
  by (simp_all add: clear_errors_def)

lemma forget_errors_fields [simp]:
  "buffer (forget_errors v s) = buffer s"
  "calls (forget_errors v s) = calls s"
  "view_errors (forget_errors v s) = (view_errors s)(view_id v := None)"
  by (auto simp add: forget_errors_def fun_eq_iff)

lemma show_errors_fields:
  assumes "show_errors errs rc c s = (res, s')"
  shows "buffer s' = buffer s" and "view_errors s' = view_errors s"
  using assms
  by (auto simp add: show_errors_def show_error_regions_def show_error_panel_def split: sum.splits)

lemma run_fields [simp]:
  "fst (run E c code s) = popen E c (stdin_bytes E code)"
  "snd (run E c code s) = do_call (Popen c (stdin_bytes E code)) s"
  by (simp_all add: run_def)

lemma format_cmds_frame:
  "format_cmds E fm reg cs code s = (res, s') \<Longrightarrow>
     buffer s' = buffer s \<and> view_errors s' = view_errors s"
proof (induction cs arbitrary: code s)
  case Nil
  then show ?case by simp
next
  case (Cons c cs)
  show ?case
  proof (cases "popen E c (stdin_bytes E code)")
    case (Inl e)
    with Cons.prems show ?thesis by (auto simp add: run_def)
  next
    case (Inr r)
    obtain out err rc where r: "r = (out, err, rc)" by (cases r) auto
    show ?thesis
    proof (cases "err \<noteq> [] \<or> rc \<noteq> 0")
      case True
      with Cons.prems Inr r show ?thesis
        by (auto simp add: run_def split: sum.splits prod.splits dest: show_errors_fields)
    next
      case False
      with Cons.prems Inr r
      have "format_cmds E fm reg cs (Bytes out) (do_call (Popen c (stdin_bytes E code)) s) = (res, s')"
        by (simp add: run_def)
      from Cons.IH [OF this] show ?thesis by simp
    qed
  qed
qed

lemma format_frame:
  assumes "format E fm reg s = (res, s')"
  shows "buffer s' = buffer s \<and> view_errors s' = view_errors s"
proof -
  obtain r1 s1 where f: "format_cmds E fm reg (f_cmds fm) (Str (substr (buffer s) reg)) (clear_errors s) = (r1, s1)"
    by (cases "format_cmds E fm reg (f_cmds fm) (Str (substr (buffer s) reg)) (clear_errors s)")
  from format_cmds_frame [OF f] have "buffer s1 = buffer s \<and> view_errors s1 = view_errors s"
    by simp
  with assms f show ?thesis
    by (auto simp add: format_def Let_def hide_error_panel_def split: sum.splits pyval.splits)
qed

lemma view_replace_fields [simp]:
  "view_errors (view_replace r t s) = view_errors s"
  "calls (view_replace r t s) = calls s"
  by (simp_all add: view_replace_def)

lemma format_regions_view_errors:
  "format_regions E fm rs s = (res, s') \<Longrightarrow> view_errors s' = view_errors s"
proof (induction rs arbitrary: s)
  case Nil
  then show ?case by simp
next
  case (Cons r rs)
  obtain x s1 where f: "format E fm r s = (x, s1)" by (cases "format E fm r s")
  from format_frame [OF f] have ve: "view_errors s1 = view_errors s" by simp
  show ?case
  proof (cases x)
    case (Inl e)
    with Cons.prems f ve show ?thesis by simp
  next
    case (Inr t)
    with Cons.prems f have "format_regions E fm rs (view_replace r t s1) = (res, s')" by simp
    from Cons.IH [OF this] ve show ?thesis by simp
  qed
qed





lemma Formatter_fields [simp]:
  "f_view (Formatter E v) = v"
  by (simp add: Formatter_def)


lemma run_formatter_buffer:
  "buffer (run_formatter E v rs s) =
     buffer (snd (format_regions E (Formatter E v) rs (forget_errors v s)))"
  by (simp add: run_formatter_def split: prod.splits sum.splits exc.splits)

lemma run_formatter_view_errors:
  "view_errors (run_formatter E v rs s) (view_id v) =
     (case fst (format_regions E (Formatter E v) rs (forget_errors v s)) of
        Inl (FormatterError errs) \<Rightarrow> Some errs
      | Inl (Builtin e) \<Rightarrow> None
      | Inr u \<Rightarrow> None)"
proof -
  obtain res s1 where f: "format_regions E (Formatter E v) rs (forget_errors v s) = (res, s1)"
    by (cases "format_regions E (Formatter E v) rs (forget_errors v s)")
  from format_regions_view_errors [OF f] have "view_errors s1 (view_id v) = None" by simp
  with f show ?thesis
    by (simp add: run_formatter_def split: sum.splits exc.splits)
qed

lemma format_regions_fails:
  "format_regions E fm rs s = (Inl e, s') \<Longrightarrow>
     \<exists>pre r post s1. rs = pre @ r # post \<and> format_regions E fm pre s = (Inr (), s1) \<and>
        format E fm r s1 = (Inl e, s')"
proof (induction rs arbitrary: s)
  case Nil
  then show ?case by simp
next
  case (Cons r rs)
  obtain x s1 where f: "format E fm r s = (x, s1)" by (cases "format E fm r s")
  show ?case
  proof (cases x)
    case (Inl e')
    with Cons.prems f have "format E fm r s = (Inl e, s')" by simp
    then have "r # rs = [] @ r # rs \<and> format_regions E fm [] s = (Inr (), s) \<and>
        format E fm r s = (Inl e, s')" by simp
    then show ?thesis by blast
  next
    case (Inr t)
    with Cons.prems f have "format_regions E fm rs (view_replace r t s1) = (Inl e, s')" by simp
    from Cons.IH [OF this] obtain pre r' post s2 where
      d: "rs = pre @ r' # post"
      and p: "format_regions E fm pre (view_replace r t s1) = (Inr (), s2)"
      and q: "format E fm r' s2 = (Inl e, s')" by blast
    have "r # rs = (r # pre) @ r' # post \<and> format_regions E fm (r # pre) s = (Inr (), s2) \<and>
        format E fm r' s2 = (Inl e, s')"
      using d p q f Inr by simp
    then show ?thesis by blast
  qed
qed


section \<open>The examples, evaluated\<close>

lemma demo_ids [simp]:
  "view_id demo_view = 7" "buffer demo_world = demo_buffer" "calls demo_world = []"
  "view_errors demo_world 7 = Some [old_error]"
  by (simp_all add: demo_view_def demo_world_def)





lemma parse_stderr_cmds_setting [simp]:
  "parse_stderr (E\<lparr>cmds_setting := x\<rparr>) buf stderr reg v = parse_stderr E buf stderr reg v"
  by (simp add: parse_stderr_def stderr_text_def parse_lines_acc make_error_def Let_def
      split: pyval.splits sum.splits option.splits)

lemma two_forms_run:
  "fst (format_regions demo_env (Formatter demo_env demo_view) [Region 0 4, Region 5 7]
          (forget_errors demo_view two_forms)) =
     Inl (FormatterError [\<lparr>etext = ''Read error: Unexpected EOF'', region = Region 7 7, row = 0,
            col = 7, filename = ''core.clj''\<rparr>])"
  by code_simp

lemma demo_world_run:
  "fst (format_regions demo_env (Formatter demo_env demo_view) [Region 10 37]
          (forget_errors demo_view demo_world)) =
     Inl (FormatterError [\<lparr>etext = ''Read error: Unexpected EOF'', region = Region 12 21, row = 10,
            col = 2, filename = ''core.clj''\<rparr>])"
  by code_simp



section \<open>Formatting a region\<close>












section \<open>Formatting the regions of a view\<close>

text \<open>
  C7, as the code has it. When the loop of \<^verbatim>\<open>run_formatter\<close> over the regions \<open>rs\<close> ends
  with an exception \<open>e\<close> (\<^verbatim>\<open>FormatterError\<close> or another), the exception was raised while
  one region \<open>r\<close> of the list was formatted; the regions \<open>pre\<close> before it were formatted
  and replaced; and the buffer is the one that those replacements left: neither \<open>r\<close>
  nor a region after it has been replaced. A run over a single region, as the run over
  the whole buffer is, leaves the text of the buffer as it was.
\<close>

theorem failure_keeps_region_and_rest:
  assumes "format_regions E (Formatter E v) rs (forget_errors v s) = (Inl e, s')"
  shows "(\<exists>pre r post s1. rs = pre @ r # post \<and>
            format_regions E (Formatter E v) pre (forget_errors v s) = (Inr (), s1) \<and>
            fst (format E (Formatter E v) r s1) = Inl e \<and>
            buffer (run_formatter E v rs s) = buffer s1) \<and>
         (length rs = 1 \<longrightarrow> buffer (run_formatter E v rs s) = buffer s)"
proof -
  from format_regions_fails [OF assms] obtain pre r post s1 where
    d: "rs = pre @ r # post"
    and p: "format_regions E (Formatter E v) pre (forget_errors v s) = (Inr (), s1)"
    and q: "format E (Formatter E v) r s1 = (Inl e, s')" by blast
  have b: "buffer (run_formatter E v rs s) = buffer s1"
    using format_frame [OF q] assms by (simp add: run_formatter_buffer)
  have one: "buffer (run_formatter E v rs s) = buffer s" if "length rs = 1"
  proof -
    from that d have "pre = []" by (cases pre) auto
    with p have "s1 = forget_errors v s" by simp
    with b show ?thesis by simp
  qed
  from d p q b one show ?thesis by force
qed

text \<open>C7 on the example of the two expressions: the second region fails.\<close>

theorem failure_keeps_region_and_rest_witness:
  "\<exists>pre r post s1. [Region 0 4, Region 5 7] = pre @ r # post \<and>
      format_regions demo_env (Formatter demo_env demo_view) pre (forget_errors demo_view two_forms) =
        (Inr (), s1) \<and>
      fst (format demo_env (Formatter demo_env demo_view) r s1) =
        Inl (FormatterError [\<lparr>etext = ''Read error: Unexpected EOF'', region = Region 7 7, row = 0,
               col = 7, filename = ''core.clj''\<rparr>]) \<and>
      buffer (run_formatter demo_env demo_view [Region 0 4, Region 5 7] two_forms) = buffer s1"
proof -
  let ?X = "format_regions demo_env (Formatter demo_env demo_view) [Region 0 4, Region 5 7]
          (forget_errors demo_view two_forms)"
  let ?e = "FormatterError [\<lparr>etext = ''Read error: Unexpected EOF'', region = Region 7 7, row = 0,
            col = 7, filename = ''core.clj''\<rparr>]"
  have h: "?X = (Inl ?e, snd ?X)"
    using two_forms_run by (simp add: prod_eq_iff)
  show ?thesis
    using failure_keeps_region_and_rest [OF h] by blast
qed

text \<open>
  C7, as the claim has it, fails for a run over two regions: the first region, \<^verbatim>\<open>(a\<close>,
  TAB, \<^verbatim>\<open>)\<close>, is formatted and replaced, the TAB becomes a space; the second region,
  \<^verbatim>\<open>(b\<close>, makes the formatter fail, \<^verbatim>\<open>FormatterError\<close> is raised, and the buffer keeps
  the replaced first region.
\<close>

theorem partial_replacement:
  "fst (format_regions demo_env (Formatter demo_env demo_view) [Region 0 4, Region 5 7]
          (forget_errors demo_view two_forms)) =
     Inl (FormatterError [\<lparr>etext = ''Read error: Unexpected EOF'', region = Region 7 7, row = 0,
            col = 7, filename = ''core.clj''\<rparr>]) \<and>
   buffer two_forms = ''(a'' @ [CHR 0x09] @ '') (b'' \<and>
   buffer (run_formatter demo_env demo_view [Region 0 4, Region 5 7] two_forms) = ''(a ) (b''"
  by code_simp

text \<open>
  C8, as the code has it. After \<^verbatim>\<open>run_formatter\<close> the entry of the view in
  \<^verbatim>\<open>view_errors\<close> holds the errors of the \<^verbatim>\<open>FormatterError\<close> that this run raised, and
  there is no entry when this run raised none: the entry that was there before the run
  has no part in the state after the run. The closing of the view runs no code of the
  plugin and leaves \<^verbatim>\<open>view_errors\<close>, with the rest of the state, as it was.
\<close>

theorem errors_discarded_by_reformat_only:
  "view_errors (run_formatter E v rs s) (view_id v) =
     (case fst (format_regions E (Formatter E v) rs (forget_errors v s)) of
        Inl (FormatterError errs) \<Rightarrow> Some errs
      | Inl (Builtin e) \<Rightarrow> None
      | Inr u \<Rightarrow> None) \<and>
   run_formatter E v rs (s\<lparr>view_errors := (view_errors s)(view_id v \<mapsto> old)\<rparr>) =
     run_formatter E v rs (s\<lparr>view_errors := (view_errors s)(view_id v := None)\<rparr>) \<and>
   CljPpprintListener E v OnClose s = s"
proof -
  have eq: "forget_errors v (s\<lparr>view_errors := (view_errors s)(view_id v \<mapsto> old)\<rparr>) =
      forget_errors v (s\<lparr>view_errors := (view_errors s)(view_id v := None)\<rparr>)"
    by (simp add: forget_errors_def)
  have "run_formatter E v rs (s\<lparr>view_errors := (view_errors s)(view_id v \<mapsto> old)\<rparr>) =
      run_formatter E v rs (s\<lparr>view_errors := (view_errors s)(view_id v := None)\<rparr>)"
    unfolding run_formatter_def eq by (rule refl)
  then show ?thesis
    using run_formatter_view_errors [of E v rs s] by simp
qed

text \<open>C8 on the example: a run that fails puts its own error in the place of the old
  one; the closing of the view changes nothing.\<close>

theorem errors_discarded_by_reformat_only_witness:
  "view_errors demo_world 7 = Some [old_error] \<and>
   view_errors (run_formatter demo_env demo_view [Region 10 37] demo_world) 7 =
     Some [\<lparr>etext = ''Read error: Unexpected EOF'', region = Region 12 21, row = 10,
            col = 2, filename = ''core.clj''\<rparr>] \<and>
   CljPpprintListener demo_env demo_view OnClose demo_world = demo_world"
  using errors_discarded_by_reformat_only [of demo_env demo_view "[Region 10 37]" demo_world]
    demo_world_run
  by simp

text \<open>
  C8, as the claim has it, fails for the closing of a view: the class
  \<^verbatim>\<open>CljPpprintListener\<close> has no method for it, and the entry of the view is in
  \<^verbatim>\<open>view_errors\<close> after the event as it was before.
\<close>

theorem close_keeps_errors:
  "view_errors demo_world (view_id demo_view) = Some [old_error] \<and>
   view_errors (CljPpprintListener demo_env demo_view OnClose demo_world) (view_id demo_view) =
     Some [old_error]"
  by simp







end
